theory Spec2Isabelle
  imports Complex_Main "HOL-Library.List_Lexorder" "HOL-Library.Char_ord"
begin

section \<open>Data model\<close>

text \<open>
  The ShareBite backend keeps two MongoDB collections, users and donations
  (models/User.js, models/Donation.js). JavaScript numbers are modelled as exact
  rationals: NaN, infinities and the rounding of IEEE-754 doubles are outside the model.
  Dates are natural numbers (a clock reading), object identifiers are strings.
\<close>

type_synonym number = rat
type_synonym date = nat
type_synonym objectId = string

datatype userType = Donor | Receiver | Driver | Admin

datatype driverStatus = DriverAvailable | DriverBusy

datatype status = Available | Reserved | Assigned | Picked_up | Delivered | Cancelled

record coordinates =
  lat :: "number option"
  lng :: "number option"

record address =
  street :: "string option"
  city :: "string option"
  state :: "string option"
  zipCode :: "string option"
  coordinates :: "coordinates option"

record user =
  u_id :: objectId
  name :: string
  email :: string
  phone :: string
  userType :: userType
  u_address :: address
  kycStatus :: string
  reputationScore :: number
  isActive :: bool
  driverStatus :: driverStatus
  vehicleCapacity :: "string option"

record foodItem =
  fi_name :: string
  quantity :: number
  unit :: string

record deliveryProof =
  url :: string
  uploadedAt :: date

record donation =
  d_id :: objectId
  donor :: objectId
  receiver :: "objectId option"
  driver :: "objectId option"
  foodItems :: "foodItem list"
  pickupAddress :: address
  status :: status
  preferredPickupTime :: date
  actualPickupTime :: "date option"
  actualDeliveryTime :: "date option"
  deliveryProof :: "deliveryProof option"
  d_notes :: "string option"
  createdAt :: date
  updatedAt :: date

text \<open>
  The store is the pair of collections, each in the order a query returns it.
\<close>

record store =
  users :: "user list"
  donations :: "donation list"

section \<open>CapacityModel (services/driverAssignment.js)\<close>

text \<open>
  \<^verbatim>\<open>calculateFoodQuantity\<close>: \<^verbatim>\<open>forEach\<close> over the items with the accumulator
  \<^verbatim>\<open>totalKg\<close>; one step of the loop is the \<^verbatim>\<open>switch\<close> on \<^verbatim>\<open>item.unit\<close>.
\<close>

definition addItem :: "number \<Rightarrow> foodItem \<Rightarrow> number" where
  "addItem totalKg item =
     (if unit item = ''kg'' then totalKg + quantity item
      else if unit item = ''liters'' then totalKg + quantity item * 1
      else if unit item = ''boxes'' then totalKg + quantity item * 5
      else if unit item = ''packets'' then totalKg + quantity item * 0.5
      else if unit item = ''pieces'' then totalKg + quantity item * 0.2
      else totalKg + quantity item)"

definition calculateFoodQuantity :: "foodItem list \<Rightarrow> number" where
  "calculateFoodQuantity items = foldl addItem 0 items"

text \<open>
  \<^verbatim>\<open>getVehicleCapacityKg\<close>: the lookup \<^verbatim>\<open>capacityMap[vehicleCapacity] || 150\<close>.
\<close>

definition getVehicleCapacityKg :: "string \<Rightarrow> number" where
  "getVehicleCapacityKg vc =
     (if vc = ''small'' then 50
      else if vc = ''medium'' then 150
      else if vc = ''large'' then 300
      else 150)"

section \<open>Store queries and writes\<close>

text \<open>
  \<^verbatim>\<open>Model.findById\<close> returns the first document with the identifier, or null.
  \<^verbatim>\<open>doc.save()\<close> writes the paths the handler modified to the stored document with the
  same identifier; the handler's modification is the function \<open>f\<close>.
\<close>

definition findUserById :: "store \<Rightarrow> objectId \<Rightarrow> user option" where
  "findUserById s i = find (\<lambda>u. u_id u = i) (users s)"

definition findDonationById :: "store \<Rightarrow> objectId \<Rightarrow> donation option" where
  "findDonationById s i = find (\<lambda>d. d_id d = i) (donations s)"

definition saveUser :: "store \<Rightarrow> objectId \<Rightarrow> (user \<Rightarrow> user) \<Rightarrow> store" where
  "saveUser s i f = s\<lparr>users := map (\<lambda>u. if u_id u = i then f u else u) (users s)\<rparr>"

definition saveDonation :: "store \<Rightarrow> objectId \<Rightarrow> (donation \<Rightarrow> donation) \<Rightarrow> store" where
  "saveDonation s i f =
     s\<lparr>donations := map (\<lambda>d. if d_id d = i then f d else d) (donations s)\<rparr>"

text \<open>
  \<^verbatim>\<open>Donation.countDocuments({driver: driverId, status: {$in: ['assigned', 'picked_up']}})\<close>
\<close>

definition countActive :: "store \<Rightarrow> objectId \<Rightarrow> nat" where
  "countActive s driverId =
     length (filter (\<lambda>d. driver d = Some driverId \<and> (status d = Assigned \<or> status d = Picked_up))
               (donations s))"

text \<open>
  The same count with \<^verbatim>\<open>_id: {$ne: donation._id}\<close>, as the delivery paths issue it.
\<close>

definition countActiveExcluding :: "store \<Rightarrow> objectId \<Rightarrow> objectId \<Rightarrow> nat" where
  "countActiveExcluding s driverId donationId =
     length (filter (\<lambda>d. driver d = Some driverId \<and> d_id d \<noteq> donationId
                          \<and> (status d = Assigned \<or> status d = Picked_up))
               (donations s))"

section \<open>DriverAvailabilityChecker (services/driverAssignment.js)\<close>

definition isDriverAvailable :: "store \<Rightarrow> objectId \<Rightarrow> bool" where
  "isDriverAvailable s driverId =
     (case findUserById s driverId of
        None \<Rightarrow> False
      | Some drv \<Rightarrow>
          if userType drv \<noteq> Driver then False
          else if driverStatus drv \<noteq> DriverAvailable then False
          else countActive s driverId = 0)"

text \<open>
  The driver query of both matching paths:
  \<^verbatim>\<open>User.find({userType: 'driver', driverStatus: 'available', isActive: true,
  'address.coordinates.lat': {$exists: true}, 'address.coordinates.lng': {$exists: true}})\<close>.
  An absent and a null coordinate are both \<open>None\<close>.
\<close>

definition hasLatLng :: "user \<Rightarrow> bool" where
  "hasLatLng u =
     (case coordinates (u_address u) of
        None \<Rightarrow> False
      | Some c \<Rightarrow> lat c \<noteq> None \<and> lng c \<noteq> None)"

definition allDrivers :: "store \<Rightarrow> user list" where
  "allDrivers s =
     filter (\<lambda>u. userType u = Driver \<and> driverStatus u = DriverAvailable \<and> isActive u \<and> hasLatLng u)
       (users s)"

text \<open>
  \<^verbatim>\<open>driver.vehicleCapacity || 'medium'\<close>: an absent or empty class reads as medium.
\<close>

definition vehicleClass :: "user \<Rightarrow> string" where
  "vehicleClass u =
     (case vehicleCapacity u of
        None \<Rightarrow> ''medium''
      | Some v \<Rightarrow> if v = [] then ''medium'' else v)"

section \<open>ScoringEngine and MatchingEngine\<close>

text \<open>
  \<^verbatim>\<open>calculateDistance\<close> is the haversine formula on doubles (sine, cosine, arc tangent);
  the matching functions take it as the parameter \<open>calcDistance\<close>, applied as in the source to
  the driver's and the pickup's latitude and longitude.
\<close>

type_synonym distanceFn =
  "number option \<Rightarrow> number option \<Rightarrow> number option \<Rightarrow> number option \<Rightarrow> number"

text \<open>
  \<^verbatim>\<open>parseFloat(x.toFixed(f))\<close> on exact numbers: the nearest multiple of \<open>10^-f\<close>,
  a tie going away from zero.
\<close>

definition toFixed :: "nat \<Rightarrow> number \<Rightarrow> number" where
  "toFixed f x =
     (if x < 0 then - (of_int \<lfloor>(- x) * 10 ^ f + 1 / 2\<rfloor> / 10 ^ f)
      else of_int \<lfloor>x * 10 ^ f + 1 / 2\<rfloor> / 10 ^ f)"

text \<open>
  The score of the advisory path (routes/donations.js, available-drivers) and of the
  commit path (\<^verbatim>\<open>assignDriver\<close>), which adds the constant \<^verbatim>\<open>availabilityScore\<close>.
\<close>

definition totalScoreAdvisory :: "number \<Rightarrow> number \<Rightarrow> number \<Rightarrow> number \<Rightarrow> number" where
  "totalScoreAdvisory distance reputation foodQuantity vehicleCap =
     (let distanceScore = distance * 0.4;
          reputationScore' = (100 - reputation) * 0.3;
          capacityUtilization = (foodQuantity / vehicleCap) * 0.2
      in distanceScore + reputationScore' + capacityUtilization)"

definition totalScoreCommit :: "number \<Rightarrow> number \<Rightarrow> number \<Rightarrow> number \<Rightarrow> number" where
  "totalScoreCommit distance reputation foodQuantity vehicleCap =
     (let distanceScore = distance * 0.4;
          reputationScore' = (100 - reputation) * 0.3;
          capacityUtilization = (foodQuantity / vehicleCap) * 0.2;
          availabilityScore = 0.1
      in distanceScore + reputationScore' + capacityUtilization + availabilityScore)"

text \<open>The objects the advisory loop pushes.\<close>

record eligibleDriver =
  e_id :: objectId
  e_name :: string
  e_email :: string
  e_phone :: string
  e_distance :: number
  e_capacity :: number
  e_capacityUtilization :: number
  e_vehicleCapacity :: string
  e_reputationScore :: number
  e_score :: number

text \<open>A JavaScript number is falsy when it is absent or zero.\<close>

definition falsy :: "number option \<Rightarrow> bool" where
  "falsy x = (x = None \<or> x = Some 0)"

text \<open>
  One iteration of the advisory loop: \<open>None\<close> is \<^verbatim>\<open>continue\<close>, \<open>Some e\<close> is
  \<^verbatim>\<open>eligibleDrivers.push(e)\<close>.
\<close>

definition advisoryStep ::
  "distanceFn \<Rightarrow> store \<Rightarrow> coordinates \<Rightarrow> number \<Rightarrow> user \<Rightarrow> eligibleDriver option" where
  "advisoryStep calcDistance s pickupCoords foodQuantity drv =
     (if \<not> isDriverAvailable s (u_id drv) then None
      else let vehicleCap = getVehicleCapacityKg (vehicleClass drv) in
        if vehicleCap < foodQuantity then None
        else (case coordinates (u_address drv) of
          None \<Rightarrow> None
        | Some driverCoords \<Rightarrow>
            if falsy (lat driverCoords) \<or> falsy (lng driverCoords) then None
            else let distance = calcDistance (lat driverCoords) (lng driverCoords)
                                  (lat pickupCoords) (lng pickupCoords);
                     totalScore = totalScoreAdvisory distance (reputationScore drv)
                                    foodQuantity vehicleCap
              in Some \<lparr>e_id = u_id drv, e_name = name drv, e_email = email drv,
                       e_phone = phone drv, e_distance = toFixed 2 distance,
                       e_capacity = vehicleCap,
                       e_capacityUtilization = toFixed 1 (foodQuantity / vehicleCap * 100),
                       e_vehicleCapacity = vehicleClass drv,
                       e_reputationScore = reputationScore drv,
                       e_score = toFixed 2 totalScore\<rparr>))"

text \<open>
  \<^verbatim>\<open>eligibleDrivers.sort((a, b) => a.score - b.score)\<close>: \<^verbatim>\<open>Array.prototype.sort\<close> is
  stable, as is \<open>sort_key\<close>.
\<close>

definition rankAdvisory ::
  "distanceFn \<Rightarrow> store \<Rightarrow> coordinates \<Rightarrow> number \<Rightarrow> eligibleDriver list" where
  "rankAdvisory calcDistance s pickupCoords foodQuantity =
     sort_key e_score
       (List.map_filter (advisoryStep calcDistance s pickupCoords foodQuantity) (allDrivers s))"

section \<open>Responses and the authentication middleware\<close>

text \<open>
  A handler answers with the new store or with one error. The tags are those of the
  specification's taxonomy; the handlers answer with an HTTP status and a message, read
  as: 401 \<open>Unauthorized\<close>; 403 \<open>Forbidden\<close>; 404 \<open>NotFound\<close>; 400 "Donation is not
  available", "Donation must be reserved before assigning driver" and "Donation must be
  picked up before uploading proof" \<open>InvalidState\<close>; 400 "Driver is not available"
  \<open>DriverUnavailable\<close>; 400 "Donation missing pickup location coordinates"
  \<open>MissingLocation\<close>; any other 400 \<open>BadRequest\<close>; 500 (a schema validation failure
  or an exception reaching the handler's \<^verbatim>\<open>catch\<close>) \<open>ServerError\<close>. \<^verbatim>\<open>assignDriver\<close>
  answers \<^verbatim>\<open>{success: false}\<close> with a message: "Donation not found" \<open>NotFound\<close>,
  missing coordinates \<open>MissingLocation\<close>, no available or no eligible driver
  \<open>CapacityExceeded\<close>. No handler answers \<open>InvalidTransition\<close> or \<open>Conflict\<close>; the
  tags are kept so that statements about them can be written.
\<close>

datatype error =
    Unauthorized | Forbidden | NotFound | InvalidState | InvalidTransition
  | MissingLocation | DriverUnavailable | Conflict | CapacityExceeded
  | BadRequest | ServerError

text \<open>
  \<^verbatim>\<open>authenticate\<close> (middleware/auth.js): the token's user must exist. The token itself
  is taken as verified; \<open>actor\<close> is \<^verbatim>\<open>req.userId\<close>.
\<close>

definition authenticate :: "store \<Rightarrow> objectId \<Rightarrow> error + user" where
  "authenticate s actor =
     (case findUserById s actor of None \<Rightarrow> Inl Unauthorized | Some usr \<Rightarrow> Inr usr)"

definition authorize :: "userType list \<Rightarrow> user \<Rightarrow> bool" where
  "authorize allowedRoles usr = (userType usr \<in> set allowedRoles)"

text \<open>
  \<^verbatim>\<open>authorizeOwnerOrRole('id', ...allowedRoles)\<close>: the role is allowed, or the route's
  \<^verbatim>\<open>:id\<close> is the caller.
\<close>

definition authorizeOwnerOrRole :: "userType list \<Rightarrow> objectId \<Rightarrow> objectId \<Rightarrow> user \<Rightarrow> bool" where
  "authorizeOwnerOrRole allowedRoles resourceUserId actor usr =
     (userType usr \<in> set allowedRoles \<or> resourceUserId = actor)"

section \<open>Advisory mode: GET /:id/available-drivers\<close>

record availableDriversResponse =
  drivers :: "eligibleDriver list"
  r_foodQuantity :: number
  r_count :: nat

definition availableDrivers ::
  "distanceFn \<Rightarrow> store \<Rightarrow> objectId \<Rightarrow> objectId \<Rightarrow> error + availableDriversResponse" where
  "availableDrivers calcDistance s actor donationId =
     (case authenticate s actor of
        Inl e \<Rightarrow> Inl e
      | Inr usr \<Rightarrow>
          if \<not> authorize [Receiver, Donor] usr then Inl Forbidden
          else (case findDonationById s donationId of
                  None \<Rightarrow> Inl NotFound
                | Some don \<Rightarrow>
                    (case coordinates (pickupAddress don) of
                       None \<Rightarrow> Inl MissingLocation
                     | Some pickupCoords \<Rightarrow>
                         let foodQuantity = calculateFoodQuantity (foodItems don);
                             eligibleDrivers =
                               rankAdvisory calcDistance s pickupCoords foodQuantity
                         in Inr \<lparr>drivers = eligibleDrivers,
                                 r_foodQuantity = toFixed 2 foodQuantity,
                                 r_count = length eligibleDrivers\<rparr>)))"

section \<open>Commit mode: assignDriver (services/driverAssignment.js)\<close>

text \<open>The objects the commit loop pushes.\<close>

record candidate =
  c_driver :: user
  c_distance :: number
  c_capacity :: number
  c_capacityUtilization :: number
  c_reputation :: number
  c_score :: number

text \<open>
  One iteration of the commit loop. Reading \<^verbatim>\<open>driverCoords.lat\<close> of absent coordinates
  throws; the exception ends \<^verbatim>\<open>assignDriver\<close> in its \<^verbatim>\<open>catch\<close>.
\<close>

definition commitStep ::
  "distanceFn \<Rightarrow> store \<Rightarrow> coordinates \<Rightarrow> number \<Rightarrow> user \<Rightarrow> error + candidate option" where
  "commitStep calcDistance s pickupCoords foodQuantity drv =
     (if \<not> isDriverAvailable s (u_id drv) then Inr None
      else let vehicleCap = getVehicleCapacityKg (vehicleClass drv) in
        if vehicleCap < foodQuantity then Inr None
        else (case coordinates (u_address drv) of
          None \<Rightarrow> Inl ServerError
        | Some driverCoords \<Rightarrow>
            let distance = calcDistance (lat driverCoords) (lng driverCoords)
                             (lat pickupCoords) (lng pickupCoords);
                totalScore = totalScoreCommit distance (reputationScore drv)
                               foodQuantity vehicleCap
            in Inr (Some \<lparr>c_driver = drv, c_distance = distance, c_capacity = vehicleCap,
                            c_capacityUtilization = foodQuantity / vehicleCap,
                            c_reputation = reputationScore drv, c_score = totalScore\<rparr>)))"

fun commitLoop :: "(user \<Rightarrow> error + candidate option) \<Rightarrow> user list \<Rightarrow> error + candidate list" where
  "commitLoop step [] = Inr []"
| "commitLoop step (drv # rest) =
     (case step drv of
        Inl e \<Rightarrow> Inl e
      | Inr None \<Rightarrow> commitLoop step rest
      | Inr (Some c) \<Rightarrow>
          (case commitLoop step rest of Inl e \<Rightarrow> Inl e | Inr cs \<Rightarrow> Inr (c # cs)))"

text \<open>
  \<^verbatim>\<open>donation.receiver?.address?.coordinates\<close> after \<^verbatim>\<open>populate('receiver', 'address')\<close>.
\<close>

definition receiverCoordinates :: "store \<Rightarrow> donation \<Rightarrow> coordinates option" where
  "receiverCoordinates s don =
     (case receiver don of
        None \<Rightarrow> None
      | Some r \<Rightarrow>
          (case findUserById s r of None \<Rightarrow> None | Some usr \<Rightarrow> coordinates (u_address usr)))"

text \<open>
  The reading half of \<^verbatim>\<open>assignDriver\<close> (up to \<^verbatim>\<open>eligibleDrivers[0].driver\<close>): the best
  driver's identifier, or the failure.
\<close>

definition selectDriver :: "distanceFn \<Rightarrow> store \<Rightarrow> objectId \<Rightarrow> error + objectId" where
  "selectDriver calcDistance s donationId =
     (case findDonationById s donationId of
        None \<Rightarrow> Inl NotFound
      | Some don \<Rightarrow>
          (case coordinates (pickupAddress don) of
             None \<Rightarrow> Inl MissingLocation
           | Some pickupCoords \<Rightarrow>
               if receiverCoordinates s don = None then Inl MissingLocation
               else let foodQuantity = calculateFoodQuantity (foodItems don) in
                 if allDrivers s = [] then Inl CapacityExceeded
                 else (case commitLoop (commitStep calcDistance s pickupCoords foodQuantity)
                              (allDrivers s) of
                         Inl e \<Rightarrow> Inl e
                       | Inr eligibleDrivers \<Rightarrow>
                           (case sort_key c_score eligibleDrivers of
                              [] \<Rightarrow> Inl CapacityExceeded
                            | best # alternatives \<Rightarrow> Inr (u_id (c_driver best))))))"

text \<open>
  The writing half: \<^verbatim>\<open>donation.save()\<close> with driver and status set (the schema's
  pre-save hook stamps \<^verbatim>\<open>updatedAt\<close>), then \<^verbatim>\<open>bestDriver.save()\<close> with the occupancy
  flag set. Neither write is conditional on what the store holds at that moment.
\<close>

definition commitWrites :: "date \<Rightarrow> store \<Rightarrow> objectId \<Rightarrow> objectId \<Rightarrow> store" where
  "commitWrites now s donationId driverId =
     saveUser
       (saveDonation s donationId
          (\<lambda>d. d\<lparr>driver := Some driverId, status := Assigned, updatedAt := now\<rparr>))
       driverId (\<lambda>u. u\<lparr>driverStatus := DriverBusy\<rparr>)"

definition assignDriver ::
  "distanceFn \<Rightarrow> date \<Rightarrow> store \<Rightarrow> objectId \<Rightarrow> error + objectId \<times> store" where
  "assignDriver calcDistance now s donationId =
     (case selectDriver calcDistance s donationId of
        Inl e \<Rightarrow> Inl e
      | Inr bestId \<Rightarrow> Inr (bestId, commitWrites now s donationId bestId))"

section \<open>DonationLifecycle: the handlers of routes/donations.js\<close>

text \<open>
  Every handler takes the clock reading \<open>now\<close> that \<^verbatim>\<open>Date.now()\<close> and
  \<^verbatim>\<open>new Date()\<close> return during the request, the store, and the caller \<open>actor\<close>.
\<close>

definition validUnit :: "string \<Rightarrow> bool" where
  "validUnit u = (u \<in> set [''kg'', ''pieces'', ''packets'', ''liters'', ''boxes''])"

text \<open>
  POST /: the schema validation of \<^verbatim>\<open>donation.save()\<close> (a name, a unit of the
  enumeration, a preferred pickup time) fails into the handler's \<^verbatim>\<open>catch\<close>.
  \<open>newId\<close> is the identifier the driver generates for the document.
\<close>

definition createDonation ::
  "date \<Rightarrow> store \<Rightarrow> objectId \<Rightarrow> objectId \<Rightarrow> foodItem list \<Rightarrow> address \<Rightarrow> date option
     \<Rightarrow> string option \<Rightarrow> error + store" where
  "createDonation now s actor newId its addr pickupTime nts =
     (case authenticate s actor of
        Inl e \<Rightarrow> Inl e
      | Inr usr \<Rightarrow>
          if \<not> authorize [Donor] usr then Inl Forbidden
          else if its = [] then Inl BadRequest
          else (case pickupTime of
                  None \<Rightarrow> Inl ServerError
                | Some t \<Rightarrow>
                    if \<exists>it \<in> set its. fi_name it = [] \<or> \<not> validUnit (unit it)
                    then Inl ServerError
                    else Inr (s\<lparr>donations := donations s @
                                [\<lparr>d_id = newId, donor = actor, receiver = None, driver = None,
                                  foodItems = its, pickupAddress = addr, status = Available,
                                  preferredPickupTime = t, actualPickupTime = None,
                                  actualDeliveryTime = None, deliveryProof = None,
                                  d_notes = nts, createdAt = now, updatedAt = now\<rparr>]\<rparr>)))"

text \<open>PATCH /:id/reserve\<close>

definition reserveDonation :: "date \<Rightarrow> store \<Rightarrow> objectId \<Rightarrow> objectId \<Rightarrow> error + store" where
  "reserveDonation now s actor donationId =
     (case authenticate s actor of
        Inl e \<Rightarrow> Inl e
      | Inr usr \<Rightarrow>
          if \<not> authorize [Receiver] usr then Inl Forbidden
          else (case findDonationById s donationId of
                  None \<Rightarrow> Inl NotFound
                | Some don \<Rightarrow>
                    if status don \<noteq> Available then Inl InvalidState
                    else Inr (saveDonation s donationId
                                (\<lambda>d. d\<lparr>receiver := Some actor, status := Reserved,
                                        updatedAt := now\<rparr>))))"

text \<open>
  PATCH /:id/assign-driver, the reading half: the handler's checks, made on the documents
  it has just read.
\<close>

definition assignDriverChecks :: "store \<Rightarrow> objectId \<Rightarrow> objectId \<Rightarrow> objectId \<Rightarrow> error option" where
  "assignDriverChecks s actor donationId driverId =
     (case authenticate s actor of
        Inl e \<Rightarrow> Some e
      | Inr usr \<Rightarrow>
          if \<not> authorize [Receiver, Donor] usr then Some Forbidden
          else (case findDonationById s donationId of
                  None \<Rightarrow> Some NotFound
                | Some don \<Rightarrow>
                    if status don \<noteq> Reserved then Some InvalidState
                    else (case findUserById s driverId of
                            None \<Rightarrow> Some NotFound
                          | Some driverUser \<Rightarrow>
                              if userType driverUser \<noteq> Driver then Some NotFound
                              else if driverStatus driverUser \<noteq> DriverAvailable
                              then Some DriverUnavailable
                              else None)))"

text \<open>
  The whole handler, run without interruption: the checks, then the two saves of
  \<open>commitWrites\<close>.
\<close>

definition patchAssignDriver ::
  "date \<Rightarrow> store \<Rightarrow> objectId \<Rightarrow> objectId \<Rightarrow> objectId \<Rightarrow> error + store" where
  "patchAssignDriver now s actor donationId driverId =
     (case assignDriverChecks s actor donationId driverId of
        Some e \<Rightarrow> Inl e
      | None \<Rightarrow> Inr (commitWrites now s donationId driverId))"

text \<open>
  Handlers run in parallel against the store: between a handler's reads and its writes
  another handler may write. \<open>patchAssignDriverAt\<close> is the handler whose checks read the
  store \<open>sRead\<close> and whose saves reach the store \<open>sWrite\<close>; \<open>assignDriverAt\<close> likewise
  for \<^verbatim>\<open>assignDriver\<close>.
\<close>

definition patchAssignDriverAt ::
  "date \<Rightarrow> store \<Rightarrow> store \<Rightarrow> objectId \<Rightarrow> objectId \<Rightarrow> objectId \<Rightarrow> error + store" where
  "patchAssignDriverAt now sRead sWrite actor donationId driverId =
     (case assignDriverChecks sRead actor donationId driverId of
        Some e \<Rightarrow> Inl e
      | None \<Rightarrow> Inr (commitWrites now sWrite donationId driverId))"


text \<open>
  The requested status is a string of the request body; the schema's enumeration decides
  at \<^verbatim>\<open>donation.save()\<close> whether it is stored.
\<close>

definition statusOfString :: "string \<Rightarrow> status option" where
  "statusOfString x =
     (if x = ''available'' then Some Available
      else if x = ''reserved'' then Some Reserved
      else if x = ''assigned'' then Some Assigned
      else if x = ''picked_up'' then Some Picked_up
      else if x = ''delivered'' then Some Delivered
      else if x = ''cancelled'' then Some Cancelled
      else None)"

text \<open>
  DriverStatusSynchronizer, as both delivery paths inline it: the driver bound to the
  donation goes back to available when no other donation of theirs is assigned or picked
  up; otherwise nothing is written.
\<close>

definition syncDriver :: "store \<Rightarrow> objectId \<Rightarrow> objectId option \<Rightarrow> store" where
  "syncDriver s donationId boundDriver =
     (case boundDriver of
        None \<Rightarrow> s
      | Some driverId \<Rightarrow>
          (case findUserById s driverId of
             None \<Rightarrow> s
           | Some drv \<Rightarrow>
               if countActiveExcluding s (u_id drv) donationId = 0
               then saveUser s (u_id drv) (\<lambda>u. u\<lparr>driverStatus := DriverAvailable\<rparr>)
               else s))"

text \<open>
  PATCH /:id/status. An absent or falsy timestamp of the request body is \<open>None\<close>.
\<close>

definition patchStatus ::
  "date \<Rightarrow> store \<Rightarrow> objectId \<Rightarrow> objectId \<Rightarrow> string \<Rightarrow> date option \<Rightarrow> date option
     \<Rightarrow> error + store" where
  "patchStatus now s actor donationId reqStatus reqPickupTime reqDeliveryTime =
     (case authenticate s actor of
        Inl e \<Rightarrow> Inl e
      | Inr usr \<Rightarrow>
          (case findDonationById s donationId of
             None \<Rightarrow> Inl NotFound
           | Some don \<Rightarrow>
               let canUpdate = (donor don = actor \<or> receiver don = Some actor
                                 \<or> driver don = Some actor)
               in if \<not> canUpdate then Inl Forbidden
                  else (case statusOfString reqStatus of
                          None \<Rightarrow> Inl ServerError
                        | Some newStatus \<Rightarrow>
                            let saved = saveDonation s donationId
                                  (\<lambda>d. d\<lparr>status := newStatus,
                                          actualPickupTime :=
                                            (case reqPickupTime of
                                               None \<Rightarrow> actualPickupTime d
                                             | Some t \<Rightarrow> Some t),
                                          actualDeliveryTime :=
                                            (case reqDeliveryTime of
                                               None \<Rightarrow> actualDeliveryTime d
                                             | Some t \<Rightarrow> Some t),
                                          updatedAt := now\<rparr>)
                            in Inr (if newStatus = Delivered
                                    then syncDriver saved donationId (driver don)
                                    else saved))))"

text \<open>PATCH /:id/delivery-proof\<close>

definition patchDeliveryProof ::
  "date \<Rightarrow> store \<Rightarrow> objectId \<Rightarrow> objectId \<Rightarrow> string \<Rightarrow> error + store" where
  "patchDeliveryProof now s actor donationId proofUrl =
     (case authenticate s actor of
        Inl e \<Rightarrow> Inl e
      | Inr usr \<Rightarrow>
          if \<not> authorize [Driver] usr then Inl Forbidden
          else (case findDonationById s donationId of
                  None \<Rightarrow> Inl NotFound
                | Some don \<Rightarrow>
                    if driver don \<noteq> Some actor then Inl Forbidden
                    else if status don \<noteq> Picked_up then Inl InvalidState
                    else Inr (syncDriver
                                (saveDonation s donationId
                                   (\<lambda>d. d\<lparr>deliveryProof :=
                                             Some \<lparr>url = proofUrl, uploadedAt = now\<rparr>,
                                           status := Delivered,
                                           actualDeliveryTime := Some now,
                                           updatedAt := now\<rparr>))
                                donationId (driver don))))"

section \<open>The handlers that write user documents\<close>

definition driverStatusOfString :: "string \<Rightarrow> driverStatus option" where
  "driverStatusOfString x =
     (if x = ''available'' then Some DriverAvailable
      else if x = ''busy'' then Some DriverBusy
      else None)"

text \<open>
  PATCH /api/drivers/:id/status (routes/drivers.js), behind
  \<^verbatim>\<open>authorizeOwnerOrRole('id', 'driver')\<close>.
\<close>

definition patchDriverStatus :: "store \<Rightarrow> objectId \<Rightarrow> objectId \<Rightarrow> string \<Rightarrow> error + store" where
  "patchDriverStatus s actor driverId reqStatus =
     (case authenticate s actor of
        Inl e \<Rightarrow> Inl e
      | Inr usr \<Rightarrow>
          if \<not> authorizeOwnerOrRole [Driver] driverId actor usr then Inl Forbidden
          else (case driverStatusOfString reqStatus of
                  None \<Rightarrow> Inl BadRequest
                | Some newStatus \<Rightarrow>
                    (case findUserById s driverId of
                       None \<Rightarrow> Inl NotFound
                     | Some drv \<Rightarrow>
                         if userType drv \<noteq> Driver then Inl NotFound
                         else Inr (saveUser s driverId
                                     (\<lambda>u. u\<lparr>driverStatus := newStatus\<rparr>)))))"

text \<open>
  PATCH /api/admin/users/:id. A field absent from the request body is \<open>None\<close>; the
  schema validation of \<^verbatim>\<open>user.save()\<close> (the KYC enumeration, the reputation between 0
  and 100) fails into the handler's \<^verbatim>\<open>catch\<close>.
\<close>

definition validKyc :: "string \<Rightarrow> bool" where
  "validKyc k = (k \<in> set [''pending'', ''verified'', ''rejected'', ''not_submitted''])"

definition adminPatchUser ::
  "store \<Rightarrow> objectId \<Rightarrow> objectId \<Rightarrow> string option \<Rightarrow> number option \<Rightarrow> bool option
     \<Rightarrow> string option \<Rightarrow> error + store" where
  "adminPatchUser s actor userId reqKyc reqReputation reqIsActive reqDriverStatus =
     (case authenticate s actor of
        Inl e \<Rightarrow> Inl e
      | Inr usr \<Rightarrow>
          if \<not> authorize [Admin] usr then Inl Forbidden
          else (case findUserById s userId of
                  None \<Rightarrow> Inl NotFound
                | Some target \<Rightarrow>
                    let setKyc = (\<lambda>u. case reqKyc of
                                         None \<Rightarrow> u
                                       | Some k \<Rightarrow> if k = [] then u else u\<lparr>kycStatus := k\<rparr>);
                        setReputation = (\<lambda>u. case reqReputation of
                                                None \<Rightarrow> u
                                              | Some r \<Rightarrow> u\<lparr>reputationScore := r\<rparr>);
                        setActive = (\<lambda>u. case reqIsActive of
                                            None \<Rightarrow> u
                                          | Some a \<Rightarrow> u\<lparr>isActive := a\<rparr>);
                        setDriverStatus =
                          (\<lambda>u. case reqDriverStatus of
                                  None \<Rightarrow> u
                                | Some d \<Rightarrow>
                                    if userType target = Driver
                                    then (case driverStatusOfString d of
                                            None \<Rightarrow> u
                                          | Some v \<Rightarrow> u\<lparr>driverStatus := v\<rparr>)
                                    else u);
                        modified = setDriverStatus (setActive (setReputation (setKyc target)))
                    in if \<not> validKyc (kycStatus modified) \<and> kycStatus modified \<noteq> kycStatus target
                       then Inl ServerError
                       else if (reputationScore modified < 0 \<or> 100 < reputationScore modified)
                               \<and> reputationScore modified \<noteq> reputationScore target
                       then Inl ServerError
                       else Inr (saveUser s userId
                                   (\<lambda>u. setDriverStatus (setActive (setReputation (setKyc u)))))))"

text \<open>
  PATCH /api/users/:id (routes/users.js), behind \<^verbatim>\<open>authorizeOwnerOrRole('id')\<close>: the
  owner only. The address of the request is spread over the stored one.
\<close>

definition orElse :: "'a option \<Rightarrow> 'a option \<Rightarrow> 'a option" where
  "orElse x y = (case x of None \<Rightarrow> y | Some v \<Rightarrow> Some v)"

definition mergeAddress :: "address \<Rightarrow> address \<Rightarrow> address" where
  "mergeAddress old new =
     \<lparr>street = orElse (street new) (street old), city = orElse (city new) (city old),
      state = orElse (state new) (state old), zipCode = orElse (zipCode new) (zipCode old),
      coordinates = orElse (coordinates new) (coordinates old)\<rparr>"

definition patchProfile ::
  "store \<Rightarrow> objectId \<Rightarrow> objectId \<Rightarrow> address option \<Rightarrow> string \<Rightarrow> string \<Rightarrow> error + store" where
  "patchProfile s actor userId reqAddress reqName reqPhone =
     (case authenticate s actor of
        Inl e \<Rightarrow> Inl e
      | Inr usr \<Rightarrow>
          if \<not> authorizeOwnerOrRole [] userId actor usr then Inl Forbidden
          else (case findUserById s userId of
                  None \<Rightarrow> Inl NotFound
                | Some target \<Rightarrow>
                    Inr (saveUser s userId
                           (\<lambda>u. u\<lparr>u_address := (case reqAddress of
                                                   None \<Rightarrow> u_address u
                                                 | Some a \<Rightarrow> mergeAddress (u_address u) a),
                                   name := (if reqName = [] then name u else reqName),
                                   phone := (if reqPhone = [] then phone u else reqPhone)\<rparr>))))"

section \<open>The operations of the system\<close>

text \<open>
  The requests that reach a handler of the three route files above and of the matching
  service, with their parameters. Registration and login (routes/auth.js) and the GET
  routes other than the ranking write no existing document and are left out.
\<close>

datatype operation =
    CreateDonation objectId objectId "foodItem list" address "date option" "string option"
  | ReserveDonation objectId objectId
  | ListAvailableDrivers objectId objectId
  | AssignDriverManual objectId objectId objectId
  | AssignDriverAuto objectId
  | UpdateStatus objectId objectId string "date option" "date option"
  | UploadDeliveryProof objectId objectId string
  | SetDriverStatus objectId objectId string
  | AdminUpdateUser objectId objectId "string option" "number option" "bool option"
      "string option"
  | UpdateProfile objectId objectId "address option" string string

fun exec :: "distanceFn \<Rightarrow> date \<Rightarrow> store \<Rightarrow> operation \<Rightarrow> error + store" where
  "exec calcDistance now s (CreateDonation actor newId its addr t nts) =
     createDonation now s actor newId its addr t nts"
| "exec calcDistance now s (ReserveDonation actor donationId) =
     reserveDonation now s actor donationId"
| "exec calcDistance now s (ListAvailableDrivers actor donationId) =
     (case availableDrivers calcDistance s actor donationId of
        Inl e \<Rightarrow> Inl e
      | Inr r \<Rightarrow> Inr s)"
| "exec calcDistance now s (AssignDriverManual actor donationId driverId) =
     patchAssignDriver now s actor donationId driverId"
| "exec calcDistance now s (AssignDriverAuto donationId) =
     (case assignDriver calcDistance now s donationId of
        Inl e \<Rightarrow> Inl e
      | Inr (bestId, s') \<Rightarrow> Inr s')"
| "exec calcDistance now s (UpdateStatus actor donationId reqStatus t1 t2) =
     patchStatus now s actor donationId reqStatus t1 t2"
| "exec calcDistance now s (UploadDeliveryProof actor donationId proofUrl) =
     patchDeliveryProof now s actor donationId proofUrl"
| "exec calcDistance now s (SetDriverStatus actor driverId reqStatus) =
     patchDriverStatus s actor driverId reqStatus"
| "exec calcDistance now s (AdminUpdateUser actor userId k r a d) =
     adminPatchUser s actor userId k r a d"
| "exec calcDistance now s (UpdateProfile actor userId a n p) =
     patchProfile s actor userId a n p"

section \<open>Scenario data\<close>

text \<open>
  Documents with the schema defaults, and a distance function for the scenarios: the
  distance along the grid of the coordinates, so that a driver's distance from the pickup
  can be read off its latitude.
\<close>

definition num :: "number option \<Rightarrow> number" where
  "num x = (case x of None \<Rightarrow> 0 | Some v \<Rightarrow> v)"

definition gridDistance :: distanceFn where
  "gridDistance lat1 lon1 lat2 lon2 = \<bar>num lat1 - num lat2\<bar> + \<bar>num lon1 - num lon2\<bar>"

definition noAddress :: address where
  "noAddress = \<lparr>street = None, city = None, state = None, zipCode = None, coordinates = None\<rparr>"

definition addressAt :: "number \<Rightarrow> number \<Rightarrow> address" where
  "addressAt x y = noAddress\<lparr>coordinates := Some \<lparr>lat = Some x, lng = Some y\<rparr>\<rparr>"

definition newUser :: "objectId \<Rightarrow> userType \<Rightarrow> user" where
  "newUser i t =
     \<lparr>u_id = i, name = i, email = i @ ''@example.org'', phone = ''0'', userType = t,
      u_address = noAddress, kycStatus = ''not_submitted'', reputationScore = 100,
      isActive = True, driverStatus = DriverAvailable, vehicleCapacity = Some ''medium''\<rparr>"

definition newDonation :: "objectId \<Rightarrow> objectId \<Rightarrow> foodItem list \<Rightarrow> donation" where
  "newDonation i d its =
     \<lparr>d_id = i, donor = d, receiver = None, driver = None, foodItems = its,
      pickupAddress = addressAt 1 1, status = Available, preferredPickupTime = 0,
      actualPickupTime = None, actualDeliveryTime = None, deliveryProof = None,
      d_notes = None, createdAt = 0, updatedAt = 0\<rparr>"

text \<open>
  The scenario of the specification's section 8: a reserved donation of 90 kg; driver A
  with a medium vehicle, 5 km away, reputation 90; driver B with a large vehicle, 20 km
  away, reputation 100.
\<close>

definition driverA :: user where
  "driverA = (newUser ''A'' Driver)\<lparr>u_address := addressAt 6 1, reputationScore := 90\<rparr>"

definition driverB :: user where
  "driverB = (newUser ''B'' Driver)\<lparr>u_address := addressAt 21 1,
                                     vehicleCapacity := Some ''large''\<rparr>"

definition rice90 :: donation where
  "rice90 = (newDonation ''d1'' ''donor1''
               [\<lparr>fi_name = ''rice'', quantity = 90, unit = ''kg''\<rparr>])
            \<lparr>receiver := Some ''recv1'', status := Reserved\<rparr>"

definition scenario :: store where
  "scenario =
     \<lparr>users = [newUser ''donor1'' Donor, (newUser ''recv1'' Receiver)\<lparr>u_address := addressAt 2 2\<rparr>,
               driverA, driverB],
      donations = [rice90]\<rparr>"



section \<open>The specification's lifecycle table\<close>


text \<open>
  The fields of a donation other than status, the two actual timestamps and
  \<^verbatim>\<open>updatedAt\<close>.
\<close>

definition otherFields ::
  "donation \<Rightarrow> objectId \<times> objectId \<times> objectId option \<times> objectId option \<times> foodItem list
     \<times> address \<times> date \<times> deliveryProof option \<times> string option \<times> date" where
  "otherFields d =
     (d_id d, donor d, receiver d, driver d, foodItems d, pickupAddress d,
      preferredPickupTime d, deliveryProof d, d_notes d, createdAt d)"

text \<open>
  More scenario data: a donation that has just been created; and the section 8 scenario
  after driver A was assigned to the donation.
\<close>

definition bread :: donation where
  "bread = newDonation ''d2'' ''donor1'' [\<lparr>fi_name = ''bread'', quantity = 4, unit = ''boxes''\<rparr>]"

definition fresh :: store where
  "fresh = \<lparr>users = [newUser ''donor1'' Donor, newUser ''recv1'' Receiver],
            donations = [bread]\<rparr>"

definition inTransit :: store where
  "inTransit =
     \<lparr>users = [newUser ''donor1'' Donor, (newUser ''recv1'' Receiver)\<lparr>u_address := addressAt 2 2\<rparr>,
               driverA\<lparr>driverStatus := DriverBusy\<rparr>, driverB],
      donations = [rice90\<lparr>driver := Some ''A'', status := Assigned\<rparr>]\<rparr>"

section \<open>The specification's eligibility predicate, and scenarios of assignment\<close>


text \<open>
  Driver C is deactivated, has no coordinates and is carrying the bread donation, while
  the occupancy flag reads available.
\<close>

definition driverC :: user where
  "driverC = (newUser ''C'' Driver)\<lparr>isActive := False\<rparr>"

definition offDuty :: store where
  "offDuty =
     \<lparr>users = [newUser ''donor1'' Donor, newUser ''recv1'' Receiver, driverC],
      donations = [rice90, bread\<lparr>receiver := Some ''recv1'', driver := Some ''C'',
                                 status := Picked_up\<rparr>]\<rparr>"

text \<open>
  Two reserved donations and one driver; the store after the first donation was assigned
  to the driver, and after both were.
\<close>

definition beans :: donation where
  "beans = (newDonation ''d3'' ''donor1''
              [\<lparr>fi_name = ''beans'', quantity = 30, unit = ''packets''\<rparr>])
           \<lparr>receiver := Some ''recv1'', status := Reserved\<rparr>"

definition twoReserved :: store where
  "twoReserved =
     \<lparr>users = [newUser ''donor1'' Donor, (newUser ''recv1'' Receiver)\<lparr>u_address := addressAt 2 2\<rparr>,
               driverA],
      donations = [rice90, beans]\<rparr>"

definition afterFirst :: store where
  "afterFirst =
     \<lparr>users = [newUser ''donor1'' Donor, (newUser ''recv1'' Receiver)\<lparr>u_address := addressAt 2 2\<rparr>,
               driverA\<lparr>driverStatus := DriverBusy\<rparr>],
      donations = [rice90\<lparr>driver := Some ''A'', status := Assigned, updatedAt := 1\<rparr>, beans]\<rparr>"

definition afterBoth :: store where
  "afterBoth =
     \<lparr>users = [newUser ''donor1'' Donor, (newUser ''recv1'' Receiver)\<lparr>u_address := addressAt 2 2\<rparr>,
               driverA\<lparr>driverStatus := DriverBusy\<rparr>],
      donations = [rice90\<lparr>driver := Some ''A'', status := Assigned, updatedAt := 1\<rparr>,
                   beans\<lparr>driver := Some ''A'', status := Assigned, updatedAt := 2\<rparr>]\<rparr>"

section \<open>The specification's ranking order, and scenarios of ranking\<close>
















section \<open>The writers of the occupancy flag\<close>

text \<open>
  The operations whose handler contains a write of \<^verbatim>\<open>driverStatus\<close>: the two commit
  paths, the two delivery paths with their synchronisation, the driver's own status
  route and the administrator's user update when it carries a driver status.
\<close>

definition writesOccupancy :: "operation \<Rightarrow> bool" where
  "writesOccupancy op =
     (case op of
        AssignDriverManual actor donationId driverId \<Rightarrow> True
      | AssignDriverAuto donationId \<Rightarrow> True
      | UpdateStatus actor donationId reqStatus t1 t2 \<Rightarrow> reqStatus = ''delivered''
      | UploadDeliveryProof actor donationId proofUrl \<Rightarrow> True
      | SetDriverStatus actor driverId reqStatus \<Rightarrow> True
      | AdminUpdateUser actor userId k r a d \<Rightarrow> d \<noteq> None
      | _ \<Rightarrow> False)"

text \<open>The store with driver A on the way, and an administrator.\<close>

definition staffed :: store where
  "staffed =
     \<lparr>users = [newUser ''donor1'' Donor, (newUser ''recv1'' Receiver)\<lparr>u_address := addressAt 2 2\<rparr>,
               driverA\<lparr>driverStatus := DriverBusy\<rparr>, driverB, newUser ''root'' Admin],
      donations = [rice90\<lparr>driver := Some ''A'', status := Assigned\<rparr>]\<rparr>"

section \<open>Properties of the capacity model\<close>





section \<open>Properties of the store operations\<close>

lemma donations_saveUser [simp]: "donations (saveUser s i f) = donations s"
  by (simp add: saveUser_def)

lemma users_saveDonation [simp]: "users (saveDonation s i f) = users s"
  by (simp add: saveDonation_def)

lemma donations_syncDriver [simp]: "donations (syncDriver s i b) = donations s"
  by (simp add: syncDriver_def split: option.splits)







lemma findDonationById_saveUser [simp]:
  "findDonationById (saveUser s i f) j = findDonationById s j"
  by (simp add: findDonationById_def)

lemma findUserById_saveDonation [simp]:
  "findUserById (saveDonation s i f) j = findUserById s j"
  by (simp add: findUserById_def)

lemma findDonationById_syncDriver [simp]:
  "findDonationById (syncDriver s i b) j = findDonationById s j"
  by (simp add: findDonationById_def)

section \<open>Properties of the status handler\<close>




text \<open>
  Claim C10. A successful status update leaves every field of every donation other than
  status, \<^verbatim>\<open>actualPickupTime\<close>, \<^verbatim>\<open>actualDeliveryTime\<close> and \<^verbatim>\<open>updatedAt\<close> as it was
  (donor, receiver, driver, food items, pickup address, delivery proof among them), and
  leaves the donations with another identifier untouched; a failed one returns no store.
\<close>

theorem patchStatus_frame:
  assumes "patchStatus now s actor donationId reqStatus t1 t2 = Inr s'"
  shows "map otherFields (donations s') = map otherFields (donations s)
         \<and> filter (\<lambda>d. d_id d \<noteq> donationId) (donations s')
           = filter (\<lambda>d. d_id d \<noteq> donationId) (donations s)"
proof -
  let ?upd = "\<lambda>ns d. d\<lparr>status := ns,
                actualPickupTime := (case t1 of None \<Rightarrow> actualPickupTime d | Some t \<Rightarrow> Some t),
                actualDeliveryTime := (case t2 of None \<Rightarrow> actualDeliveryTime d | Some t \<Rightarrow> Some t),
                updatedAt := now\<rparr>"
  have "\<exists>ns. donations s' = donations (saveDonation s donationId (?upd ns))"
    using assms
    by (auto simp: patchStatus_def authenticate_def Let_def split: option.splits if_splits)
  then obtain ns where
    s': "donations s' = map (\<lambda>d. if d_id d = donationId then ?upd ns d else d) (donations s)"
    by (auto simp: saveDonation_def)
  have fields: "map otherFields (map (\<lambda>d. if d_id d = donationId then ?upd ns d else d) xs)
        = map otherFields xs" for xs :: "donation list"
    by (induction xs) (simp_all add: otherFields_def)
  have others: "filter (\<lambda>d. d_id d \<noteq> donationId)
                   (map (\<lambda>d. if d_id d = donationId then ?upd ns d else d) xs)
                 = filter (\<lambda>d. d_id d \<noteq> donationId) xs" for xs :: "donation list"
    by (induction xs) simp_all
  show ?thesis
    unfolding s' by (intro conjI fields others)
qed

theorem patchStatus_frame_witness:
  "patchStatus 9 inTransit ''A'' ''d1'' ''picked_up'' (Some 8) None
     = Inr (inTransit\<lparr>donations := [rice90\<lparr>driver := Some ''A'', status := Picked_up,
                                          actualPickupTime := Some 8, updatedAt := 9\<rparr>]\<rparr>)
   \<and> map otherFields [rice90\<lparr>driver := Some ''A'', status := Picked_up,
                            actualPickupTime := Some 8, updatedAt := 9\<rparr>]
     = map otherFields (donations inTransit)"
proof -
  have run: "patchStatus 9 inTransit ''A'' ''d1'' ''picked_up'' (Some 8) None
     = Inr (inTransit\<lparr>donations := [rice90\<lparr>driver := Some ''A'', status := Picked_up,
                                          actualPickupTime := Some 8, updatedAt := 9\<rparr>]\<rparr>)"
    by (simp add: patchStatus_def authenticate_def findUserById_def findDonationById_def
        inTransit_def rice90_def driverA_def driverB_def newUser_def newDonation_def
        statusOfString_def saveDonation_def)
  from patchStatus_frame[OF run] run show ?thesis
    by simp
qed

text \<open>
  Claim C3 fails on the code. The donor cancels a donation that is assigned to driver A:
  the handler stores \<open>cancelled\<close> and writes no user document, so driver A stays busy
  with no assigned or picked-up donation left. The same handler asked for \<open>delivered\<close>
  sets the driver back to available.
\<close>

theorem cancellation_leaves_driver_busy:
  "patchStatus 9 inTransit ''donor1'' ''d1'' ''cancelled'' None None
     = Inr (inTransit\<lparr>donations := [rice90\<lparr>driver := Some ''A'', status := Cancelled,
                                          updatedAt := 9\<rparr>]\<rparr>)
   \<and> countActive (inTransit\<lparr>donations := [rice90\<lparr>driver := Some ''A'', status := Cancelled,
                                                 updatedAt := 9\<rparr>]\<rparr>) ''A'' = 0
   \<and> map_option driverStatus (findUserById inTransit ''A'') = Some DriverBusy
   \<and> map_sum id (\<lambda>s'. map_option driverStatus (findUserById s' ''A''))
        (patchStatus 9 inTransit ''donor1'' ''d1'' ''delivered'' None None)
      = Inr (Some DriverAvailable)"
  by (simp add: patchStatus_def authenticate_def findUserById_def findDonationById_def
      inTransit_def rice90_def driverA_def driverB_def newUser_def newDonation_def
      statusOfString_def saveDonation_def countActive_def syncDriver_def saveUser_def
      countActiveExcluding_def)

section \<open>Properties of the commit paths\<close>

lemmas scenario_defs =
  scenario_def inTransit_def fresh_def offDuty_def twoReserved_def afterFirst_def afterBoth_def
  driverA_def driverB_def driverC_def rice90_def bread_def beans_def
  newUser_def newDonation_def addressAt_def noAddress_def

lemmas handler_defs =
  findUserById_def findDonationById_def authenticate_def authorize_def
  assignDriverChecks_def patchAssignDriver_def patchAssignDriverAt_def
  commitWrites_def saveUser_def saveDonation_def




















section \<open>Properties of the matching engine\<close>

lemma floor_numeral_div_rat [simp]:
  "\<lfloor>numeral a / numeral b :: rat\<rfloor> = numeral a div numeral b"
proof -
  have "\<lfloor>of_int (numeral a) / of_int (numeral b) :: rat\<rfloor> = numeral a div numeral b"
    by (rule floor_divide_of_int_eq)
  then show ?thesis
    by simp
qed














lemma commitLoop_order:
  "commitLoop step xs = Inr cs \<Longrightarrow>
     cs = List.map_filter (\<lambda>u. case step u of Inl e \<Rightarrow> None | Inr c \<Rightarrow> c) xs"
  by (induction xs arbitrary: cs)
     (auto simp: List.map_filter_simps split: sum.splits option.splits)










section \<open>Properties of the occupancy flag\<close>

lemmas user_handler_defs =
  patchDriverStatus_def adminPatchUser_def authorizeOwnerOrRole_def driverStatusOfString_def
  validKyc_def staffed_def

lemma flags_saveUser:
  assumes "\<And>u. driverStatus (f u) = driverStatus u"
  shows "map driverStatus (users (saveUser s i f)) = map driverStatus (users s)"
  by (simp add: saveUser_def assms o_def)

lemma flags_createDonation:
  "createDonation now s actor newId its addr t nts = Inr s' \<Longrightarrow> users s' = users s"
  by (auto simp: createDonation_def split: sum.splits if_splits option.splits)

lemma flags_reserveDonation:
  "reserveDonation now s actor donationId = Inr s' \<Longrightarrow> users s' = users s"
  by (auto simp: reserveDonation_def split: sum.splits if_splits option.splits)

lemma flags_patchStatus:
  "patchStatus now s actor donationId reqStatus t1 t2 = Inr s' \<Longrightarrow>
     reqStatus \<noteq> ''delivered'' \<Longrightarrow> users s' = users s"
  by (auto simp: patchStatus_def Let_def statusOfString_def
      split: sum.splits if_splits option.splits)

lemma flags_patchProfile:
  "patchProfile s actor userId a n p = Inr s' \<Longrightarrow>
     map driverStatus (users s') = map driverStatus (users s)"
  by (auto simp: patchProfile_def flags_saveUser split: sum.splits if_splits option.splits)

lemma flags_adminPatchUser:
  "adminPatchUser s actor userId k r a None = Inr s' \<Longrightarrow>
     map driverStatus (users s') = map driverStatus (users s)"
  by (auto simp: adminPatchUser_def Let_def split: sum.splits if_splits option.splits
      intro!: flags_saveUser)


text \<open>
  Claim C7, as the specification states it, fails: two more operations set the flag
  directly. Driver A, with one assigned donation, sets the own flag to available through
  the driver status route; the administrator sets the flag of driver B, who has no
  donation, to busy.
\<close>

theorem direct_occupancy_writes:
  "map (\<lambda>u. (u_id u, driverStatus u)) (users staffed)
     = [(''donor1'', DriverAvailable), (''recv1'', DriverAvailable), (''A'', DriverBusy),
        (''B'', DriverAvailable), (''root'', DriverAvailable)]
   \<and> countActive staffed ''A'' = 1 \<and> countActive staffed ''B'' = 0
   \<and> map_sum id (map (\<lambda>u. (u_id u, driverStatus u)) \<circ> users)
        (exec gridDistance 1 staffed (SetDriverStatus ''A'' ''A'' ''available''))
     = Inr [(''donor1'', DriverAvailable), (''recv1'', DriverAvailable),
            (''A'', DriverAvailable), (''B'', DriverAvailable), (''root'', DriverAvailable)]
   \<and> map_sum id (map (\<lambda>u. (u_id u, driverStatus u)) \<circ> users)
        (exec gridDistance 1 staffed
           (AdminUpdateUser ''root'' ''B'' None None None (Some ''busy'')))
     = Inr [(''donor1'', DriverAvailable), (''recv1'', DriverAvailable), (''A'', DriverBusy),
            (''B'', DriverBusy), (''root'', DriverAvailable)]"
proof -
  have "map (\<lambda>u. (u_id u, driverStatus u)) (users staffed)
     = [(''donor1'', DriverAvailable), (''recv1'', DriverAvailable), (''A'', DriverBusy),
        (''B'', DriverAvailable), (''root'', DriverAvailable)]"
    by (simp add: scenario_defs user_handler_defs)
  moreover have "countActive staffed ''A'' = 1" "countActive staffed ''B'' = 0"
    by (simp_all add: scenario_defs user_handler_defs countActive_def)
  moreover have "map_sum id (map (\<lambda>u. (u_id u, driverStatus u)) \<circ> users)
        (exec gridDistance 1 staffed (SetDriverStatus ''A'' ''A'' ''available''))
     = Inr [(''donor1'', DriverAvailable), (''recv1'', DriverAvailable),
            (''A'', DriverAvailable), (''B'', DriverAvailable), (''root'', DriverAvailable)]"
    by (simp add: scenario_defs user_handler_defs handler_defs)
  moreover have "map_sum id (map (\<lambda>u. (u_id u, driverStatus u)) \<circ> users)
        (exec gridDistance 1 staffed
           (AdminUpdateUser ''root'' ''B'' None None None (Some ''busy'')))
     = Inr [(''donor1'', DriverAvailable), (''recv1'', DriverAvailable), (''A'', DriverBusy),
            (''B'', DriverBusy), (''root'', DriverAvailable)]"
    by (simp add: scenario_defs user_handler_defs handler_defs)
  ultimately show ?thesis
    by (intro conjI)
qed

text \<open>
  Claim C7, amended. Whenever an operation changes the occupancy flag of some user, the
  operation is one of: the manual or the automatic assignment (the commit paths), the
  status update to \<open>delivered\<close> or the upload of a delivery proof (the delivery
  synchronisation), the driver status route, or the administrator's user update carrying
  a driver status. Creating or reserving a donation, ranking drivers, a status update to
  any other status and a profile update leave every flag as it was.
\<close>

theorem occupancy_writers:
  assumes "exec cd now s op = Inr s'"
      and "map driverStatus (users s') \<noteq> map driverStatus (users s)"
  shows "writesOccupancy op"
proof (cases op)
  case (CreateDonation actor newId its addr t nts)
  with assms flags_createDonation show ?thesis by fastforce
next
  case (ReserveDonation actor donationId)
  with assms flags_reserveDonation show ?thesis by fastforce
next
  case (ListAvailableDrivers actor donationId)
  with assms show ?thesis by (auto split: sum.splits)
next
  case (UpdateStatus actor donationId reqStatus t1 t2)
  have "reqStatus = ''delivered''"
  proof (rule ccontr)
    assume other: "reqStatus \<noteq> ''delivered''"
    from assms(1) UpdateStatus
    have "patchStatus now s actor donationId reqStatus t1 t2 = Inr s'"
      by simp
    from flags_patchStatus[OF this other] assms(2) show False
      by simp
  qed
  with UpdateStatus show ?thesis
    by (simp add: writesOccupancy_def)
next
  case (AdminUpdateUser actor userId k r a d)
  with assms flags_adminPatchUser[of s actor userId k r a s']
  show ?thesis by (cases d) (auto simp: writesOccupancy_def)
next
  case (UpdateProfile actor userId a n p)
  with assms flags_patchProfile show ?thesis by fastforce
qed (simp_all add: writesOccupancy_def)

theorem occupancy_writers_witness:
  "exec gridDistance 1 staffed (SetDriverStatus ''A'' ''A'' ''available'')
     = Inr (saveUser staffed ''A'' (\<lambda>u. u\<lparr>driverStatus := DriverAvailable\<rparr>))
   \<and> map driverStatus (users (saveUser staffed ''A'' (\<lambda>u. u\<lparr>driverStatus := DriverAvailable\<rparr>)))
       \<noteq> map driverStatus (users staffed)
   \<and> writesOccupancy (SetDriverStatus ''A'' ''A'' ''available'')"
proof -
  have run: "exec gridDistance 1 staffed (SetDriverStatus ''A'' ''A'' ''available'')
     = Inr (saveUser staffed ''A'' (\<lambda>u. u\<lparr>driverStatus := DriverAvailable\<rparr>))"
    by (simp add: scenario_defs user_handler_defs handler_defs)
  have changed: "map driverStatus
       (users (saveUser staffed ''A'' (\<lambda>u. u\<lparr>driverStatus := DriverAvailable\<rparr>)))
       \<noteq> map driverStatus (users staffed)"
    by (simp add: scenario_defs user_handler_defs handler_defs)
  from run changed occupancy_writers[OF run changed] show ?thesis
    by (intro conjI)
qed

end
